theory Spec2Isabelle
  imports Main "HOL-Library.Char_ord" "HOL-Library.List_Lexorder"
begin

section \<open>Go values shared by the packages\<close>

text \<open>
  A Go function returning \<open>(T, error)\<close> is modelled by a pair whose second component is
  \<open>None\<close> for \<open>nil\<close>, or by a sum with \<open>Inl\<close> for the error where the value is dropped on
  failure. A run-time panic is kept apart from a returned error.
\<close>

datatype AnnotationParseErrorType = AnnotationParseErrorTypeMissing | AnnotationParseErrorTypeInvalid

datatype error =
    NotFound
  | ApiError string
  | ExecError string
  | LastPinnedParseError AnnotationParseErrorType
  | New string
  | DoesNotOwn string string
  | Wrapped string error

text \<open>
  \<open>NotFound\<close> is the error for which \<open>apierrs.IsNotFound\<close> holds, \<open>ApiError\<close> any other
  error of a lister or of the API server, \<open>ExecError f\<close> the error of \<open>text/template\<close> when
  field \<open>f\<close> cannot be evaluated, \<open>New\<close> an error made by \<open>errors.New\<close> or by
  \<open>fmt.Errorf\<close> without \<open>%w\<close>, and \<open>Wrapped msg e\<close> is \<open>fmt.Errorf("msg: %w", e)\<close>.
\<close>

fun IsNotFound :: "error \<Rightarrow> bool" where
  "IsNotFound NotFound = True"
| "IsNotFound _ = False"

datatype panic = NilPointerDereference | IndexOutOfRange nat nat

datatype 'a outcome = Returns 'a | Panics panic

type_synonym labels = "string \<rightharpoonup> string"

text \<open>The index expression \<open>m[k]\<close> on a \<open>map[string]string\<close>: the empty string for a missing key.\<close>

definition at_key :: "labels \<Rightarrow> string \<Rightarrow> string" where
  "at_key m k = (case m k of None \<Rightarrow> [] | Some v \<Rightarrow> v)"

text \<open>
  \<open>metav1.ObjectMeta\<close>, with the fields the packages read. \<open>Controller\<close> is the UID of
  the owner reference whose \<open>Controller\<close> flag is set, if there is one.
\<close>

record ObjectMeta =
  Name :: string
  Namespace :: string
  Labels :: labels
  Annotations :: labels
  UID :: string
  Controller :: "string option"

text \<open>Constants of package \<open>serving\<close> and \<open>traffic\<close> (declared outside the files at hand).\<close>

definition VisibilityLabelKey :: string where
  "VisibilityLabelKey = ''serving.knative.dev/visibility''"

definition VisibilityClusterLocal :: string where
  "VisibilityClusterLocal = ''cluster-local''"

definition RouteLabelKey :: string where
  "RouteLabelKey = ''serving.knative.dev/route''"

definition DefaultTarget :: string where
  "DefaultTarget = []"

section \<open>Templates\<close>

text \<open>
  The templates of \<open>text/template\<close> that the configuration holds, already parsed: a
  sequence of literal text, field references \<open>{{.F}}\<close> and map lookups
  \<open>{{index .F "k"}}\<close>. Conditionals, pipelines and loops are outside this fragment.
  Execution walks the nodes from left to right and appends to the buffer; it stops at
  the first node that cannot be evaluated, leaving what it wrote so far in the buffer.
\<close>

datatype node = TextNode string | FieldNode string | IndexNode string string

type_synonym template = "node list"

datatype tvalue = VString string | VMap labels

fun intercalate :: "string \<Rightarrow> string list \<Rightarrow> string" where
  "intercalate sep [] = []"
| "intercalate sep [x] = x"
| "intercalate sep (x # y # ys) = x @ sep @ intercalate sep (y # ys)"

text \<open>How \<open>fmt\<close> prints a map: \<open>map[k1:v1 k2:v2]\<close>, keys in increasing order.\<close>

definition fmt_map :: "labels \<Rightarrow> string" where
  "fmt_map m =
     ''map['' @ intercalate '' '' (map (\<lambda>k. k @ '':'' @ at_key m k) (sorted_list_of_set (dom m))) @ '']''"

fun print_value :: "tvalue \<Rightarrow> string" where
  "print_value (VString s) = s"
| "print_value (VMap m) = fmt_map m"

fun exec :: "template \<Rightarrow> (string \<Rightarrow> tvalue option) \<Rightarrow> string \<Rightarrow> string \<times> error option" where
  "exec [] dat buf = (buf, None)"
| "exec (TextNode s # ns) dat buf = exec ns dat (buf @ s)"
| "exec (FieldNode f # ns) dat buf =
     (case dat f of
        None \<Rightarrow> (buf, Some (ExecError f))
      | Some v \<Rightarrow> exec ns dat (buf @ print_value v))"
| "exec (IndexNode f k # ns) dat buf =
     (case dat f of
        None \<Rightarrow> (buf, Some (ExecError f))
      | Some (VString s) \<Rightarrow> (buf, Some (ExecError f))
      | Some (VMap m) \<Rightarrow> exec ns dat (buf @ at_key m k))"

text \<open>
  \<open>(*Template).Execute\<close> on a pointer: a nil receiver is dereferenced, which panics.
  The buffer starts empty (\<open>bytes.Buffer{}\<close>); the result is the buffer and the error.
\<close>

definition Execute :: "template option \<Rightarrow> (string \<Rightarrow> tvalue option) \<Rightarrow> (string \<times> error option) outcome" where
  "Execute templ dat =
     (case templ of
        None \<Rightarrow> Panics NilPointerDereference
      | Some t \<Rightarrow> Returns (exec t dat []))"

text \<open>The fields a template names, and whether all of them are fields of the data.\<close>

fun fields_of :: "node \<Rightarrow> string" where
  "fields_of (TextNode s) = []"
| "fields_of (FieldNode f) = f"
| "fields_of (IndexNode f k) = f"

fun is_text :: "node \<Rightarrow> bool" where
  "is_text (TextNode s) = True"
| "is_text _ = False"

definition references_undefined :: "template \<Rightarrow> (string \<Rightarrow> tvalue option) \<Rightarrow> bool" where
  "references_undefined t dat = list_ex (\<lambda>n. \<not> is_text n \<and> dat (fields_of n) = None) t"

text \<open>\<open>network.TagTemplateValues\<close> and \<open>network.DomainTemplateValues\<close>, and their fields by name.\<close>

record TagTemplateValues =
  tag_Name :: string
  tag_Tag :: string

record DomainTemplateValues =
  dom_Name :: string
  dom_Namespace :: string
  dom_Domain :: string
  dom_Annotations :: labels
  dom_Labels :: labels

definition tag_fields :: "TagTemplateValues \<Rightarrow> string \<Rightarrow> tvalue option" where
  "tag_fields d f =
     (if f = ''Name'' then Some (VString (tag_Name d))
      else if f = ''Tag'' then Some (VString (tag_Tag d))
      else None)"

definition domain_fields :: "DomainTemplateValues \<Rightarrow> string \<Rightarrow> tvalue option" where
  "domain_fields d f =
     (if f = ''Name'' then Some (VString (dom_Name d))
      else if f = ''Namespace'' then Some (VString (dom_Namespace d))
      else if f = ''Domain'' then Some (VString (dom_Domain d))
      else if f = ''Annotations'' then Some (VMap (dom_Annotations d))
      else if f = ''Labels'' then Some (VMap (dom_Labels d))
      else None)"

text \<open>\<open>network.DefaultDomainTemplate\<close>: \<open>{{.Name}}.{{.Namespace}}.{{.Domain}}\<close>.\<close>

definition DefaultDomainTemplate :: template where
  "DefaultDomainTemplate =
     [FieldNode ''Name'', TextNode ''.'', FieldNode ''Namespace'', TextNode ''.'', FieldNode ''Domain'']"

section \<open>Package domains\<close>

text \<open>
  The configuration carried by the context: the parsed domain and tag templates of the
  network configuration (\<open>GetDomainTemplate\<close>, \<open>GetTagTemplate\<close>), the domain
  configuration's \<open>LookupDomainForLabels\<close> (its table is declared outside the files at
  hand, so the lookup is a parameter), and the debounce of the garbage collector's
  configuration.
\<close>

record Config =
  DomainTemplate :: template
  TagTemplate :: template
  LookupDomainForLabels :: "labels \<Rightarrow> string"
  StaleRevisionLastpinnedDebounce :: int

text \<open>A \<open>Domain\<close> object of the networking API, of which \<open>Spec.Suffix\<close> is read.\<close>

record DomainObj =
  Suffix :: string

text \<open>The resolver of package \<open>domains\<close>; its \<open>realmLister\<close> is never read.\<close>

record Resolver =
  domainLister :: "string \<Rightarrow> error + DomainObj"

definition HostnameFromTemplate :: "Config \<Rightarrow> string \<Rightarrow> string \<Rightarrow> string \<times> error option" where
  "HostnameFromTemplate cfg name tag =
     (if tag = [] then (name, None)
      else
        let dat = \<lparr>tag_Name = name, tag_Tag = tag\<rparr>
        in case exec (TagTemplate cfg) (tag_fields dat) [] of
             (buf, Some err) \<Rightarrow> ([], Some (Wrapped ''error executing the TagTemplate'' err))
           | (buf, None) \<Rightarrow> (buf, None))"

text \<open>
  \<open>DomainNameFromTemplate\<close>. The local \<open>templ\<close> is a pointer that starts nil; the first
  branch of the \<open>if\<close> chain leaves it nil, the second and third set it.
\<close>

definition DomainNameFromTemplate ::
  "Resolver \<Rightarrow> Config \<Rightarrow> ObjectMeta \<Rightarrow> string \<Rightarrow> (string \<times> error option) outcome" where
  "DomainNameFromTemplate b cfg r name =
     (let rLabels = Labels r;
          domain = LookupDomainForLabels cfg rLabels;
          annotations = Annotations r;
          dat = \<lparr>dom_Name = name, dom_Namespace = Namespace r, dom_Domain = domain,
                 dom_Annotations = annotations, dom_Labels = rLabels\<rparr>;
          visibility = at_key rLabels VisibilityLabelKey;
          chosen =
            (if visibility \<noteq> [] then
               (case domainLister b visibility of
                  Inl err \<Rightarrow> Inl err
                | Inr domain \<Rightarrow> Inr (None, dat\<lparr>dom_Domain := Suffix domain\<rparr>))
             else if at_key rLabels VisibilityLabelKey = VisibilityClusterLocal then
               Inr (Some DefaultDomainTemplate, dat)
             else Inr (Some (DomainTemplate cfg), dat))
      in case chosen of
           Inl err \<Rightarrow> Returns ([], Some err)
         | Inr (templ, dat') \<Rightarrow>
             (case Execute templ (domain_fields dat') of
                Panics p \<Rightarrow> Panics p
              | Returns (buf, Some err) \<Rightarrow>
                  Returns ([], Some (Wrapped ''error executing the DomainTemplate'' err))
              | Returns (buf, None) \<Rightarrow> Returns (buf, None)))"

section \<open>Package visibility\<close>

text \<open>
  \<open>v1.Route\<close> embeds \<open>ObjectMeta\<close>; of its spec the traffic targets are kept, and its
  status is the list of conditions marked on it.
\<close>

record TrafficTarget =
  Tag :: string
  RevisionName :: string
  Percent :: nat

datatype RouteCondition = ServiceNotOwned string

record Route = ObjectMeta +
  Traffic :: "TrafficTarget list"
  Status :: "RouteCondition list"

record ServiceSpec =
  spec_Type :: string
  spec_SessionAffinity :: string
  spec_ClusterIP :: string
  spec_ExternalName :: string
  spec_Ports :: "nat list"

record Service = ObjectMeta +
  svc_Spec :: ServiceSpec

text \<open>
  A service lister: \<open>Services(ns).Get(name)\<close> and \<open>Services(ns).List(selector)\<close>, the
  selector being a set of labels. What the informer cache holds is not fixed by the
  files at hand, so both are parameters.
\<close>

record ServiceLister =
  svc_Get :: "string \<Rightarrow> string \<Rightarrow> error + Service"
  svc_List :: "string \<Rightarrow> labels \<Rightarrow> error + Service list"

text \<open>The resolver of package \<open>visibility\<close>; its \<open>realmLister\<close> is never read.\<close>

record VisibilityResolver =
  vis_serviceLister :: ServiceLister

definition getServices :: "VisibilityResolver \<Rightarrow> Route \<Rightarrow> error + (string \<rightharpoonup> Service)" where
  "getServices b route =
     (case svc_List (vis_serviceLister b) (Namespace route) [RouteLabelKey \<mapsto> Name route] of
        Inl err \<Rightarrow> Inl err
      | Inr currentServices \<Rightarrow>
          Inr (foldl (\<lambda>serviceCopy svc. serviceCopy(Name svc \<mapsto> svc)) Map.empty currentServices))"

definition visibility :: "'a ObjectMeta_scheme \<Rightarrow> string" where
  "visibility meta =
     (let realmName = ''default'';
          rname = at_key (Labels meta) VisibilityLabelKey
      in if rname \<noteq> [] then rname else realmName)"

text \<open>\<open>sets.String\<close> is a list of its elements; \<open>List()\<close> returns them sorted.\<close>

definition List_sorted :: "string list \<Rightarrow> string list" where
  "List_sorted s = sort (remdups s)"

definition trafficNames :: "Route \<Rightarrow> string list" where
  "trafficNames route = DefaultTarget # map Tag (Traffic route)"

text \<open>
  The loop of \<open>GetVisibility\<close> over the traffic names. Go ranges over the set in no fixed
  order; here the names are taken in increasing order. The map built is the same for
  every order, and a failing name makes the whole call return the error.
\<close>

fun visibilityLoop ::
  "Config \<Rightarrow> Route \<Rightarrow> (string \<rightharpoonup> Service) \<Rightarrow> string \<Rightarrow> string list \<Rightarrow> labels \<Rightarrow> error + labels" where
  "visibilityLoop cfg route services defaultVisibility [] m = Inr m"
| "visibilityLoop cfg route services defaultVisibility (tt # tts) m =
     (case HostnameFromTemplate cfg (Name route) tt of
        (hostname, Some err) \<Rightarrow> Inl err
      | (hostname, None) \<Rightarrow>
          (let ttVisibility =
                 (case services hostname of
                    Some svc \<Rightarrow> visibility svc
                  | None \<Rightarrow> defaultVisibility)
           in visibilityLoop cfg route services defaultVisibility tts (m(tt \<mapsto> ttVisibility))))"

definition GetVisibility :: "VisibilityResolver \<Rightarrow> Config \<Rightarrow> Route \<Rightarrow> error + labels" where
  "GetVisibility b cfg route =
     (let defaultVisibility = visibility route
      in case getServices b route of
           Inl err \<Rightarrow> Inl err
         | Inr services \<Rightarrow>
             visibilityLoop cfg route services defaultVisibility
               (List_sorted (trafficNames route)) Map.empty)"

section \<open>Package route: the objects and the clients\<close>

record IngressRule =
  Hosts :: "string list"
  rule_Visibility :: string

record IngressSpec =
  Rules :: "IngressRule list"

record LoadBalancerIngressStatus =
  lb_IP :: string
  lb_Domain :: string
  lb_DomainInternal :: string
  lb_MeshOnly :: bool

record LoadBalancerStatus =
  lb_Ingress :: "LoadBalancerIngressStatus list"

record IngressStatus =
  PublicLoadBalancer :: "LoadBalancerStatus option"
  PrivateLoadBalancer :: "LoadBalancerStatus option"

record Ingress = ObjectMeta +
  ing_Spec :: IngressSpec
  ing_Status :: IngressStatus

record EndpointSubset =
  Addresses :: "string list"
  Ports :: "nat list"

record Endpoints = ObjectMeta +
  Subsets :: "EndpointSubset list"

text \<open>
  Instants and durations are integers on one scale (\<open>time.Time\<close>, \<open>time.Duration\<close>).
  Modelled from the spec: the \<open>lastPinned\<close> annotation of a revision (``revision
  annotation \<open>lastPinned=<timestamp>\<close>''), read by \<open>GetLastPinned\<close> and written by
  \<open>SetLastPinned\<close>, neither of which is in the files at hand. The annotation is absent,
  present and unreadable, or records an instant.
\<close>

datatype pin = PinMissing | PinInvalid | PinAt int

record Revision = ObjectMeta +
  lastPinned :: pin

definition GetLastPinned :: "Revision \<Rightarrow> error + int" where
  "GetLastPinned r =
     (case lastPinned r of
        PinMissing \<Rightarrow> Inl (LastPinnedParseError AnnotationParseErrorTypeMissing)
      | PinInvalid \<Rightarrow> Inl (LastPinnedParseError AnnotationParseErrorTypeInvalid)
      | PinAt t \<Rightarrow> Inr t)"

definition SetLastPinned :: "Revision \<Rightarrow> int \<Rightarrow> Revision" where
  "SetLastPinned r t = r\<lparr>lastPinned := PinAt t\<rparr>"

text \<open>The merge patch between a revision and its copy with a new pin: the new annotation.\<close>

definition CreateMergePatch :: "Revision \<Rightarrow> Revision \<Rightarrow> pin" where
  "CreateMergePatch rev0 newRev = lastPinned newRev"

record RevisionTarget =
  rt_TrafficTarget :: TrafficTarget
  Active :: bool

record TrafficConfig =
  Targets :: "(string \<times> RevisionTarget list) list"

text \<open>
  The effects of a pass, in the order they happen: the requests sent to the API server
  through the clients (whether or not they succeed) and the events given to the
  recorder. \<open>DeleteEndpoints\<close> is a request the client offers; no function below sends it.
\<close>

datatype call =
    CreateIngress Ingress
  | UpdateIngress Ingress
  | CreateService Service
  | UpdateService Service
  | DeleteService string string
  | CreateEndpoints Endpoints
  | UpdateEndpoints Endpoints
  | DeleteEndpoints string string
  | PatchRevision string string pin
  | Event string string

text \<open>
  The reconciler: its listers (reads of the informer cache), the answer of the API
  server to a request given the effects before it (\<open>None\<close> for success), and the reading
  of its clock, which does not advance within a pass.
\<close>

record Reconciler =
  ingressLister :: "string \<Rightarrow> string \<Rightarrow> error + Ingress"
  serviceLister :: ServiceLister
  endpointsLister :: "string \<Rightarrow> string \<Rightarrow> error + Endpoints"
  revisionLister :: "string \<Rightarrow> string \<Rightarrow> error + Revision"
  client :: "call list \<Rightarrow> call \<Rightarrow> error option"
  clock :: int

text \<open>
  Package \<open>resources\<close> is not among the files at hand. \<open>MakeK8sPlaceholderService\<close> and
  \<open>IsClusterLocalService\<close> are parameters of the functions that call them.
\<close>

record resources =
  MakeK8sPlaceholderService :: "Route \<Rightarrow> string \<Rightarrow> error + Service"
  IsClusterLocalService :: "Service \<Rightarrow> bool"

text \<open>Modelled from the spec: \<open>resources.GetNames\<close>, the ``placeholder-object-name set''.\<close>

definition GetNames :: "Service list \<Rightarrow> string list" where
  "GetNames services = map Name services"

text \<open>
  Modelled from the spec: \<open>resources.MakeEndpoints\<close>, ``mirror{subsets = verbatim copy of
  gateway's}'', named after its placeholder and with the Route as its parent.
\<close>

definition MakeEndpoints :: "Service \<Rightarrow> Route \<Rightarrow> Endpoints \<Rightarrow> Endpoints" where
  "MakeEndpoints svc route src =
     \<lparr>Name = Name svc, Namespace = Namespace svc, Labels = Labels svc,
      Annotations = Map.empty, UID = [], Controller = Some (UID route),
      Subsets = Subsets src\<rparr>"

text \<open>
  Modelled from the spec: \<open>RouteStatus.MarkServiceNotOwned\<close>, ``Status surfaced on Route:
  object <name> not owned by this Route''.
\<close>

definition MarkServiceNotOwned :: "string \<Rightarrow> Route \<Rightarrow> Route" where
  "MarkServiceNotOwned name route = route\<lparr>Status := Status route @ [ServiceNotOwned name]\<rparr>"

definition IsControlledBy :: "'a ObjectMeta_scheme \<Rightarrow> 'b ObjectMeta_scheme \<Rightarrow> bool" where
  "IsControlledBy obj owner = (Controller obj = Some (UID owner))"

definition request :: "Reconciler \<Rightarrow> call list \<Rightarrow> call \<Rightarrow> call list \<times> error option" where
  "request c log k = (log @ [k], client c log k)"

text \<open>\<open>strings.Split\<close> with a separator of one character: never the empty list.\<close>

fun splitParts :: "char \<Rightarrow> string \<Rightarrow> string \<times> string list" where
  "splitParts sep [] = ([], [])"
| "splitParts sep (c # cs) =
     (case splitParts sep cs of
        (p, ps) \<Rightarrow> if c = sep then ([], p # ps) else (c # p, ps))"

definition Split :: "string \<Rightarrow> char \<Rightarrow> string list" where
  "Split s sep = (case splitParts sep s of (p, ps) \<Rightarrow> p # ps)"

section \<open>Package route: reconciling the derived resources\<close>

definition reconcileIngress ::
  "Reconciler \<Rightarrow> call list \<Rightarrow> Route \<Rightarrow> Ingress \<Rightarrow> call list \<times> (error + Ingress)" where
  "reconcileIngress c log r desired =
     (case ingressLister c (Namespace desired) (Name desired) of
        Inl err \<Rightarrow>
          if IsNotFound err then
            (case request c log (CreateIngress desired) of
               (log1, Some err1) \<Rightarrow>
                 (log1 @ [Event ''Warning'' ''CreationFailed''],
                  Inl (Wrapped ''failed to create Ingress'' err1))
             | (log1, None) \<Rightarrow> (log1 @ [Event ''Normal'' ''Created''], Inr desired))
          else (log, Inl err)
      | Inr ingress \<Rightarrow>
          if ing_Spec ingress \<noteq> ing_Spec desired \<or>
             Annotations ingress \<noteq> Annotations desired \<or>
             Labels ingress \<noteq> Labels desired
          then
            (let origin = ingress\<lparr>ing_Spec := ing_Spec desired,
                                  Annotations := Annotations desired,
                                  Labels := Labels desired\<rparr>
             in case request c log (UpdateIngress origin) of
                  (log1, Some err1) \<Rightarrow> (log1, Inl (Wrapped ''failed to update Ingress'' err1))
                | (log1, None) \<Rightarrow> (log1, Inr origin))
          else (log, Inr ingress))"

fun deleteLoop :: "Reconciler \<Rightarrow> call list \<Rightarrow> string \<Rightarrow> string list \<Rightarrow> call list \<times> error option" where
  "deleteLoop c log namespace [] = (log, None)"
| "deleteLoop c log namespace (serviceName # rest) =
     (case request c log (DeleteService namespace serviceName) of
        (log1, Some err) \<Rightarrow> (log1, Some (Wrapped ''failed to delete Service'' err))
      | (log1, None) \<Rightarrow> deleteLoop c log1 namespace rest)"

definition deleteServices ::
  "Reconciler \<Rightarrow> call list \<Rightarrow> string \<Rightarrow> string list \<Rightarrow> call list \<times> error option" where
  "deleteServices c log namespace serviceNames = deleteLoop c log namespace (List_sorted serviceNames)"

text \<open>
  Modelled from the spec: the reconciler's own \<open>getServices\<close> (``Fetch observed
  placeholder objects owned by the Route''), after its sibling in package visibility.
\<close>

definition route_getServices :: "Reconciler \<Rightarrow> Route \<Rightarrow> error + Service list" where
  "route_getServices c route =
     svc_List (serviceLister c) (Namespace route) [RouteLabelKey \<mapsto> Name route]"

text \<open>
  The loop of \<open>reconcilePlaceholderServices\<close> over the sorted target names. It carries the
  effects so far, the Route (whose status it may mark), the services collected and the
  names in \<open>createdServiceNames\<close>.
\<close>

fun placeholderLoop ::
  "Reconciler \<Rightarrow> resources \<Rightarrow> string list \<Rightarrow> call list \<Rightarrow> Route \<Rightarrow> Service list \<Rightarrow> string list \<Rightarrow>
   call list \<times> Route \<times> (error + Service list \<times> string list)" where
  "placeholderLoop c res [] log route services createdServiceNames =
     (log, route, Inr (services, createdServiceNames))"
| "placeholderLoop c res (name # names) log route services createdServiceNames =
     (case MakeK8sPlaceholderService res route name of
        Inl err \<Rightarrow> (log, route, Inl (Wrapped ''failed to construct placeholder k8s service'' err))
      | Inr desiredService \<Rightarrow>
          (case svc_Get (serviceLister c) (Namespace route) (Name desiredService) of
             Inl err \<Rightarrow>
               if IsNotFound err then
                 (case request c log (CreateService desiredService) of
                    (log1, Some err1) \<Rightarrow>
                      (log1 @ [Event ''Warning'' ''CreationFailed''], route,
                       Inl (Wrapped ''failed to create placeholder service'' err1))
                  | (log1, None) \<Rightarrow>
                      placeholderLoop c res names (log1 @ [Event ''Normal'' ''Created'']) route
                        (services @ [desiredService])
                        (createdServiceNames @ [Name desiredService]))
               else (log, route, Inl err)
           | Inr service \<Rightarrow>
               if \<not> IsControlledBy service route then
                 (log, MarkServiceNotOwned (Name desiredService) route,
                  Inl (DoesNotOwn (Name route) (Name desiredService)))
               else
                 placeholderLoop c res names log route (services @ [service])
                   (createdServiceNames @ [Name desiredService])))"

definition Difference :: "string list \<Rightarrow> string list \<Rightarrow> string list" where
  "Difference s1 s2 = filter (\<lambda>n. n \<notin> set s2) s1"

definition reconcilePlaceholderServices ::
  "Reconciler \<Rightarrow> resources \<Rightarrow> call list \<Rightarrow> Route \<Rightarrow> (string \<times> RevisionTarget list) list \<Rightarrow>
   call list \<times> Route \<times> (error + Service list)" where
  "reconcilePlaceholderServices c res log route targets =
     (case route_getServices c route of
        Inl err \<Rightarrow> (log, route, Inl (Wrapped ''failed to fetch existing services'' err))
      | Inr existingServices \<Rightarrow>
          (let existingServiceNames = GetNames existingServices;
               ns = Namespace route;
               names = map fst targets
           in case placeholderLoop c res (List_sorted names) log route [] [] of
                (log1, route1, Inl err) \<Rightarrow> (log1, route1, Inl err)
              | (log1, route1, Inr (services, createdServiceNames)) \<Rightarrow>
                  (case deleteServices c log1 ns (Difference existingServiceNames createdServiceNames) of
                     (log2, Some err) \<Rightarrow> (log2, route1, Inl err)
                   | (log2, None) \<Rightarrow> (log2, route1, Inr services))))"

definition reconcileEndpoints ::
  "Reconciler \<Rightarrow> call list \<Rightarrow> string \<Rightarrow> Service \<Rightarrow> Route \<Rightarrow> call list \<times> error option outcome" where
  "reconcileEndpoints c log ingress service route =
     (case Split ingress CHR ''.'' of
        [] \<Rightarrow> (log, Panics (IndexOutOfRange 0 0))
      | [name] \<Rightarrow> (log, Panics (IndexOutOfRange 1 1))
      | name # namespace # further \<Rightarrow>
          (case endpointsLister c namespace name of
             Inl err \<Rightarrow> (log, Returns (Some (Wrapped ''failed to find ingress endpoints'' err)))
           | Inr ingEp \<Rightarrow>
               (let desiredEp = MakeEndpoints service route ingEp
                in case endpointsLister c (Namespace service) (Name service) of
                     Inl err \<Rightarrow>
                       if IsNotFound err then
                         (case request c log (CreateEndpoints desiredEp) of
                            (log1, Some err1) \<Rightarrow>
                              (log1, Returns (Some (Wrapped ''failed to create local endpoints'' err1)))
                          | (log1, None) \<Rightarrow> (log1, Returns None))
                       else (log, Returns (Some (Wrapped ''failed to get local endpoints'' err)))
                   | Inr localEp \<Rightarrow>
                       if Subsets localEp \<noteq> Subsets desiredEp then
                         (let existing = localEp\<lparr>Subsets := Subsets desiredEp\<rparr>
                          in case request c log (UpdateEndpoints existing) of
                               (log1, Some err1) \<Rightarrow> (log1, Returns (Some err1))
                             | (log1, None) \<Rightarrow> (log1, Returns None))
                       else (log, Returns None))))"

definition reconcilePlaceholderServiceSpec ::
  "Reconciler \<Rightarrow> call list \<Rightarrow> string \<Rightarrow> Service \<Rightarrow> Route \<Rightarrow> call list \<times> error option outcome" where
  "reconcilePlaceholderServiceSpec c log ingress service route =
     (case Split ingress CHR ''.'' of
        [] \<Rightarrow> (log, Panics (IndexOutOfRange 0 0))
      | [name] \<Rightarrow> (log, Panics (IndexOutOfRange 1 1))
      | name # namespace # further \<Rightarrow>
          (case svc_Get (serviceLister c) namespace name of
             Inl err \<Rightarrow> (log, Returns (Some (Wrapped ''failed to find ingress service'' err)))
           | Inr ingService \<Rightarrow>
               (let desiredSpec = (svc_Spec ingService)\<lparr>spec_Type := ''ClusterIP'',
                                                         spec_SessionAffinity := ''None''\<rparr>
                in if svc_Spec service \<noteq> desiredSpec then
                     (let existing = service\<lparr>svc_Spec := desiredSpec\<rparr>
                      in case request c log (UpdateService existing) of
                           (log1, Some err1) \<Rightarrow> (log1, Returns (Some err1))
                         | (log1, None) \<Rightarrow> (log1, Returns None))
                   else (log, Returns None))))"

text \<open>
  The function handed to \<open>eg.Go\<close> in \<open>updatePlaceholderServices\<close>, for one service and
  the one admitted address of the load balancer.
\<close>

definition mirrorBalancer ::
  "Reconciler \<Rightarrow> call list \<Rightarrow> LoadBalancerIngressStatus \<Rightarrow> Service \<Rightarrow> Route \<Rightarrow>
   call list \<times> error option outcome" where
  "mirrorBalancer c log balancer service route =
     (if lb_DomainInternal balancer \<noteq> [] then
        (case reconcileEndpoints c log (lb_DomainInternal balancer) service route of
           (log1, Returns None) \<Rightarrow>
             reconcilePlaceholderServiceSpec c log1 (lb_DomainInternal balancer) service route
         | (log1, failed) \<Rightarrow> (log1, failed))
      else if lb_Domain balancer \<noteq> [] then
        (case reconcileEndpoints c log (lb_Domain balancer) service route of
           (log1, Returns None) \<Rightarrow>
             reconcilePlaceholderServiceSpec c log1 (lb_Domain balancer) service route
         | (log1, failed) \<Rightarrow> (log1, failed))
      else (log, Returns None))"

text \<open>The error an \<open>errgroup\<close> keeps: the first one that is not nil.\<close>

definition first_error :: "error option \<Rightarrow> error option \<Rightarrow> error option" where
  "first_error kept e = (case kept of None \<Rightarrow> e | Some k \<Rightarrow> Some k)"

definition selectLoadBalancer :: "resources \<Rightarrow> Service \<Rightarrow> IngressStatus \<Rightarrow> LoadBalancerStatus option" where
  "selectLoadBalancer res service ingressStatus =
     (if IsClusterLocalService res service \<or> PrivateLoadBalancer ingressStatus \<noteq> None
      then PrivateLoadBalancer ingressStatus
      else PublicLoadBalancer ingressStatus)"

text \<open>
  The loop of \<open>updatePlaceholderServices\<close>. The functions given to the group run one
  after the other, each when it is handed over; \<open>kept\<close> is the error the group holds.
  The two \<open>return\<close> statements inside the loop leave without waiting for the group.
\<close>

fun updateLoop ::
  "Reconciler \<Rightarrow> resources \<Rightarrow> Route \<Rightarrow> Ingress \<Rightarrow> Service list \<Rightarrow> call list \<Rightarrow> error option \<Rightarrow>
   call list \<times> error option outcome" where
  "updateLoop c res route ingress [] log kept = (log, Returns kept)"
| "updateLoop c res route ingress (service # rest) log kept =
     (case selectLoadBalancer res service (ing_Status ingress) of
        None \<Rightarrow> (log, Returns None)
      | Some lbStatus \<Rightarrow>
          (case lb_Ingress lbStatus of
             [] \<Rightarrow> (log, Returns None)
           | balancer # others \<Rightarrow>
               if length (lb_Ingress lbStatus) > 1 then
                 (log, Returns (Some (New
                    (''more than one ingress are specified in status(LoadBalancer) of Ingress '' @ Name ingress))))
               else
                 (case mirrorBalancer c log balancer service route of
                    (log1, Panics p) \<Rightarrow> (log1, Panics p)
                  | (log1, Returns e) \<Rightarrow>
                      updateLoop c res route ingress rest log1 (first_error kept e))))"

definition updatePlaceholderServices ::
  "Reconciler \<Rightarrow> resources \<Rightarrow> call list \<Rightarrow> Route \<Rightarrow> Service list \<Rightarrow> Ingress \<Rightarrow>
   call list \<times> error option outcome" where
  "updatePlaceholderServices c res log route services ingress =
     updateLoop c res route ingress services log None"

text \<open>The function handed to \<open>eg.Go\<close> in \<open>reconcileTargetRevisions\<close>, for one traffic target.\<close>

definition pinRevision ::
  "Reconciler \<Rightarrow> Config \<Rightarrow> call list \<Rightarrow> Route \<Rightarrow> TrafficTarget \<Rightarrow> call list \<times> error option" where
  "pinRevision c cfg log route tt =
     (let lpDebounce = StaleRevisionLastpinnedDebounce cfg
      in case revisionLister c (Namespace route) (RevisionName tt) of
           Inl err \<Rightarrow> if IsNotFound err then (log, None) else (log, Some err)
         | Inr rev0 \<Rightarrow>
             (let patched =
                    (let newRev = SetLastPinned rev0 (clock c);
                         patch = CreateMergePatch rev0 newRev
                     in case request c log (PatchRevision (Namespace route) (Name rev0) patch) of
                          (log1, Some err1) \<Rightarrow>
                            (log1, Some (Wrapped ''failed to set revision annotation'' err1))
                        | (log1, None) \<Rightarrow> (log1, None))
              in case GetLastPinned rev0 of
                   Inl err \<Rightarrow>
                     (case err of
                        LastPinnedParseError ty \<Rightarrow>
                          if ty \<noteq> AnnotationParseErrorTypeMissing then (log, Some err) else patched
                      | _ \<Rightarrow> patched)
                 | Inr lastPin \<Rightarrow>
                     if lastPin + lpDebounce > clock c then (log, None) else patched))"

fun pinLoop ::
  "Reconciler \<Rightarrow> Config \<Rightarrow> Route \<Rightarrow> RevisionTarget list \<Rightarrow> call list \<Rightarrow> error option \<Rightarrow>
   call list \<times> error option" where
  "pinLoop c cfg route [] log kept = (log, kept)"
| "pinLoop c cfg route (rt # rest) log kept =
     (case pinRevision c cfg log route (rt_TrafficTarget rt) of
        (log1, e) \<Rightarrow> pinLoop c cfg route rest log1 (first_error kept e))"

definition reconcileTargetRevisions ::
  "Reconciler \<Rightarrow> Config \<Rightarrow> call list \<Rightarrow> TrafficConfig \<Rightarrow> Route \<Rightarrow> call list \<times> error option" where
  "reconcileTargetRevisions c cfg log t route =
     pinLoop c cfg route (concat (map snd (Targets t))) log None"

section \<open>Inputs of the tests\<close>

text \<open>
  \<open>testConfig\<close> and \<open>meta\<close> of \<open>domains_test.go\<close>, the domain template being the one
  of the test case and the route either labelled cluster-local or not. The domain table
  of the test gives \<open>another-example.com\<close> to the routes labelled \<open>app: prod\<close> and
  \<open>example.com\<close> to the others.
\<close>

definition testConfig :: "template \<Rightarrow> Config" where
  "testConfig templ =
     \<lparr>DomainTemplate = templ,
      TagTemplate = [FieldNode ''Tag'', TextNode ''-'', FieldNode ''Name''],
      LookupDomainForLabels =
        (\<lambda>l. if l ''app'' = Some ''prod'' then ''another-example.com'' else ''example.com''),
      StaleRevisionLastpinnedDebounce = 60\<rparr>"

definition testMeta :: "bool \<Rightarrow> ObjectMeta" where
  "testMeta local =
     \<lparr>Name = ''myroute'', Namespace = ''default'',
      Labels =
        (if local
         then [''route'' \<mapsto> ''myapp'', ''bus'' \<mapsto> ''mybus'', VisibilityLabelKey \<mapsto> VisibilityClusterLocal]
         else [''route'' \<mapsto> ''myapp'', ''bus'' \<mapsto> ''mybus'']),
      Annotations = [''sub'' \<mapsto> ''mysub''], UID = ''uid-myroute'', Controller = None\<rparr>"

text \<open>The templates of the test cases \<open>Dash\<close> (also \<open>LocalDash\<close>) and \<open>BadVarName\<close>.\<close>

definition dashTemplate :: template where
  "dashTemplate =
     [FieldNode ''Name'', TextNode ''-'', FieldNode ''Namespace'', TextNode ''.'', FieldNode ''Domain'']"

definition badVarNameTemplate :: template where
  "badVarNameTemplate =
     [FieldNode ''Name'', TextNode ''.'', FieldNode ''NNNamespace'', TextNode ''.'', FieldNode ''Domain'']"

text \<open>A domain lister that knows no \<open>Domain\<close> object, and one that knows the realm \<open>cluster-local\<close>.\<close>

definition noDomains :: Resolver where
  "noDomains = \<lparr>domainLister = (\<lambda>realm. Inl NotFound)\<rparr>"

definition localDomain :: Resolver where
  "localDomain =
     \<lparr>domainLister =
        (\<lambda>realm. if realm = ''cluster-local'' then Inr \<lparr>Suffix = ''svc.cluster.local''\<rparr> else Inl NotFound)\<rparr>"

text \<open>
  A Route \<open>myroute\<close> labelled cluster-local with a default target and a target tagged
  \<open>blue\<close>, and a service lister whose cache holds the placeholder of the default target,
  owned by the Route and carrying the label of its Route only.
\<close>

definition localRoute :: Route where
  "localRoute =
     \<lparr>Name = ''myroute'', Namespace = ''default'',
      Labels = [VisibilityLabelKey \<mapsto> VisibilityClusterLocal],
      Annotations = Map.empty, UID = ''uid-myroute'', Controller = None,
      Traffic = [\<lparr>Tag = [], RevisionName = ''rev-1'', Percent = 100\<rparr>,
                 \<lparr>Tag = ''blue'', RevisionName = ''rev-2'', Percent = 0\<rparr>],
      Status = []\<rparr>"

definition placeholderSpec :: ServiceSpec where
  "placeholderSpec =
     \<lparr>spec_Type = ''ClusterIP'', spec_SessionAffinity = ''None'', spec_ClusterIP = [],
      spec_ExternalName = [], spec_Ports = [80]\<rparr>"

definition placeholder :: "string \<Rightarrow> string \<Rightarrow> Service" where
  "placeholder name owner =
     \<lparr>Name = name, Namespace = ''default'', Labels = [RouteLabelKey \<mapsto> ''myroute''],
      Annotations = Map.empty, UID = ''uid-'' @ name, Controller = Some owner,
      svc_Spec = placeholderSpec\<rparr>"

definition cachedServices :: "Service list \<Rightarrow> ServiceLister" where
  "cachedServices cache =
     \<lparr>svc_Get = (\<lambda>ns name.
        case filter (\<lambda>s. Namespace s = ns \<and> Name s = name) cache of
          [] \<Rightarrow> Inl NotFound
        | s # more_found \<Rightarrow> Inr s),
      svc_List = (\<lambda>ns selector.
        Inr (filter (\<lambda>s. Namespace s = ns \<and> (\<forall>k \<in> dom selector. Labels s k = selector k)) cache))\<rparr>"

section \<open>Properties of the template resolver\<close>

lemma tag_fields_None: "tag_fields d f = None \<longleftrightarrow> f \<noteq> ''Name'' \<and> f \<noteq> ''Tag''"
  by (simp add: tag_fields_def)

lemma domain_fields_None:
  "domain_fields d f = None \<longleftrightarrow>
     f \<noteq> ''Name'' \<and> f \<noteq> ''Namespace'' \<and> f \<noteq> ''Domain'' \<and> f \<noteq> ''Annotations'' \<and> f \<noteq> ''Labels''"
  by (simp add: domain_fields_def)

text \<open>Which fields are defined depends on the type of the data alone, not on its content.\<close>

lemma references_undefined_tag:
  "references_undefined t (tag_fields d) = references_undefined t (tag_fields d')"
  by (simp add: references_undefined_def tag_fields_None)

lemma references_undefined_domain:
  "references_undefined t (domain_fields d) = references_undefined t (domain_fields d')"
  by (simp add: references_undefined_def domain_fields_None)


lemma exec_undefined:
  "references_undefined t dat \<Longrightarrow> \<exists>b f. exec t dat buf = (b, Some (ExecError f))"
proof (induction t dat buf rule: exec.induct)
  case (1 dat buf)
  then show ?case by (simp add: references_undefined_def)
next
  case (2 s ns dat buf)
  then show ?case by (simp add: references_undefined_def)
next
  case (3 f ns dat buf)
  then show ?case by (cases "dat f") (simp_all add: references_undefined_def)
next
  case (4 f k ns dat buf)
  show ?case
  proof (cases "dat f")
    case None
    then show ?thesis by simp
  next
    case (Some v)
    with 4 show ?thesis by (cases v) (simp_all add: references_undefined_def)
  qed
qed

lemma Hostname_undefined:
  assumes "tag \<noteq> []" and "references_undefined (TagTemplate cfg) (tag_fields d)"
  shows "\<exists>f. HostnameFromTemplate cfg name tag =
           ([], Some (Wrapped ''error executing the TagTemplate'' (ExecError f)))"
proof -
  have "references_undefined (TagTemplate cfg) (tag_fields \<lparr>tag_Name = name, tag_Tag = tag\<rparr>)"
    using assms(2) references_undefined_tag by blast
  then obtain b f where
    "exec (TagTemplate cfg) (tag_fields \<lparr>tag_Name = name, tag_Tag = tag\<rparr>) [] = (b, Some (ExecError f))"
    using exec_undefined by blast
  with assms(1) show ?thesis by (simp add: HostnameFromTemplate_def)
qed

lemma Domain_undefined:
  assumes "at_key (Labels r) VisibilityLabelKey = []"
    and "references_undefined (DomainTemplate cfg) (domain_fields d)"
  shows "\<exists>f. DomainNameFromTemplate b cfg r name =
           Returns ([], Some (Wrapped ''error executing the DomainTemplate'' (ExecError f)))"
proof -
  let ?dat = "\<lparr>dom_Name = name, dom_Namespace = Namespace r,
               dom_Domain = LookupDomainForLabels cfg (Labels r),
               dom_Annotations = Annotations r, dom_Labels = Labels r\<rparr>"
  have "references_undefined (DomainTemplate cfg) (domain_fields ?dat)"
    using assms(2) references_undefined_domain by blast
  then obtain bf f where
    "exec (DomainTemplate cfg) (domain_fields ?dat) [] = (bf, Some (ExecError f))"
    using exec_undefined by blast
  with assms(1) show ?thesis
    by (simp add: DomainNameFromTemplate_def Execute_def VisibilityClusterLocal_def)
qed

lemma Hostname_success:
  assumes "HostnameFromTemplate cfg name tag = (s, None)"
  shows "(tag = [] \<and> s = name) \<or>
         exec (TagTemplate cfg) (tag_fields \<lparr>tag_Name = name, tag_Tag = tag\<rparr>) [] = (s, None)"
  using assms by (auto simp: HostnameFromTemplate_def split: if_splits prod.splits option.splits)

lemma Domain_success:
  assumes "DomainNameFromTemplate b cfg r name = Returns (s, None)"
  shows "at_key (Labels r) VisibilityLabelKey = [] \<and>
         exec (DomainTemplate cfg)
           (domain_fields \<lparr>dom_Name = name, dom_Namespace = Namespace r,
               dom_Domain = LookupDomainForLabels cfg (Labels r),
               dom_Annotations = Annotations r, dom_Labels = Labels r\<rparr>) [] = (s, None)"
  using assms
  by (auto simp: DomainNameFromTemplate_def Execute_def VisibilityClusterLocal_def Let_def
      split: if_splits prod.splits option.splits sum.splits)

text \<open>
  Whatever a target's visibility label is, once it is not empty the function ends in
  the nil template or in the error of the domain lister.
\<close>

lemma Domain_visibility_label:
  assumes "at_key (Labels r) VisibilityLabelKey \<noteq> []"
  shows "DomainNameFromTemplate b cfg r name = Panics NilPointerDereference \<or>
         (\<exists>err. domainLister b (at_key (Labels r) VisibilityLabelKey) = Inl err \<and>
                DomainNameFromTemplate b cfg r name = Returns ([], Some err))"
  using assms
  by (auto simp: DomainNameFromTemplate_def Execute_def Let_def split: sum.splits)

text \<open>
  C1. The test case \<open>LocalDash\<close> expects \<open>test-name.default.svc.cluster.local\<close> for the
  cluster-local route. On that input \<open>DomainNameFromTemplate\<close> takes the first branch
  (the label is not empty), so the branch that sets the default template is never
  reached: with a \<open>Domain\<close> object for the realm the nil template is executed and the
  call panics; without one the lister's error is returned. An unlabelled route gets
  the user's template.
\<close>

theorem DomainNameFromTemplate_LocalDash:
  "DomainNameFromTemplate localDomain (testConfig dashTemplate) (testMeta True) ''test-name''
     = Panics NilPointerDereference \<and>
   DomainNameFromTemplate noDomains (testConfig dashTemplate) (testMeta True) ''test-name''
     = Returns ([], Some NotFound) \<and>
   DomainNameFromTemplate localDomain (testConfig dashTemplate) (testMeta False) ''test-name''
     = Returns (''test-name-default.example.com'', None)"
  by (simp add: DomainNameFromTemplate_def testConfig_def testMeta_def dashTemplate_def
      localDomain_def noDomains_def at_key_def VisibilityLabelKey_def VisibilityClusterLocal_def
      Execute_def domain_fields_def)

text \<open>
  C6, as the claim states it, fails: with the empty tag \<open>HostnameFromTemplate\<close> returns
  the name and no error although the tag template names an undefined field, and for a
  cluster-local route \<open>DomainNameFromTemplate\<close> never executes the user's template, so
  its undefined field is not reported.
\<close>

theorem templating_error_counterexample:
  "references_undefined badVarNameTemplate (tag_fields \<lparr>tag_Name = ''test-name'', tag_Tag = []\<rparr>) \<and>
   HostnameFromTemplate ((testConfig dashTemplate)\<lparr>TagTemplate := badVarNameTemplate\<rparr>) ''test-name'' []
     = (''test-name'', None) \<and>
   DomainNameFromTemplate noDomains (testConfig badVarNameTemplate) (testMeta True) ''test-name''
     = Returns ([], Some NotFound)"
  by (simp add: references_undefined_def badVarNameTemplate_def tag_fields_def
      HostnameFromTemplate_def DomainNameFromTemplate_def testConfig_def testMeta_def
      noDomains_def at_key_def VisibilityLabelKey_def VisibilityClusterLocal_def)

text \<open>
  C6, amended. Where the template is executed - \<open>HostnameFromTemplate\<close> with a tag that
  is not empty, \<open>DomainNameFromTemplate\<close> for a target without a visibility label - a
  template that names an undefined field yields the templating error together with the
  empty string. And a string returned without an error is never a partial expansion: it
  is the name itself (empty tag) or the whole expansion of the template.
\<close>

theorem templating_error_never_partial:
  "(tag \<noteq> [] \<and> references_undefined (TagTemplate cfg) (tag_fields d1) \<longrightarrow>
      (\<exists>f. HostnameFromTemplate cfg name tag =
             ([], Some (Wrapped ''error executing the TagTemplate'' (ExecError f))))) \<and>
   (at_key (Labels r) VisibilityLabelKey = [] \<and>
    references_undefined (DomainTemplate cfg) (domain_fields d2) \<longrightarrow>
      (\<exists>f. DomainNameFromTemplate b cfg r name =
             Returns ([], Some (Wrapped ''error executing the DomainTemplate'' (ExecError f))))) \<and>
   (HostnameFromTemplate cfg name tag = (s, None) \<longrightarrow>
      (tag = [] \<and> s = name) \<or>
      exec (TagTemplate cfg) (tag_fields \<lparr>tag_Name = name, tag_Tag = tag\<rparr>) [] = (s, None)) \<and>
   (DomainNameFromTemplate b cfg r name = Returns (s', None) \<longrightarrow>
      at_key (Labels r) VisibilityLabelKey = [] \<and>
      exec (DomainTemplate cfg)
        (domain_fields \<lparr>dom_Name = name, dom_Namespace = Namespace r,
            dom_Domain = LookupDomainForLabels cfg (Labels r),
            dom_Annotations = Annotations r, dom_Labels = Labels r\<rparr>) [] = (s', None))"
  using Hostname_undefined Domain_undefined Hostname_success Domain_success by blast

text \<open>
  The amended C6 at the test case \<open>BadVarName\<close> (also used as the tag template, with the
  tag \<open>blue\<close>), and at the test case \<open>Dash\<close>, whose success is the whole expansion.
\<close>

theorem templating_error_never_partial_witness:
  "(''blue'' \<noteq> [] \<and>
    references_undefined badVarNameTemplate (tag_fields \<lparr>tag_Name = [], tag_Tag = []\<rparr>) \<and>
    (\<exists>f. HostnameFromTemplate ((testConfig badVarNameTemplate)\<lparr>TagTemplate := badVarNameTemplate\<rparr>)
            ''test-name'' ''blue''
          = ([], Some (Wrapped ''error executing the TagTemplate'' (ExecError f))))) \<and>
   (at_key (Labels (testMeta False)) VisibilityLabelKey = [] \<and>
    references_undefined badVarNameTemplate
      (domain_fields \<lparr>dom_Name = [], dom_Namespace = [], dom_Domain = [],
                      dom_Annotations = Map.empty, dom_Labels = Map.empty\<rparr>) \<and>
    (\<exists>f. DomainNameFromTemplate noDomains
            ((testConfig badVarNameTemplate)\<lparr>TagTemplate := badVarNameTemplate\<rparr>)
            (testMeta False) ''test-name''
          = Returns ([], Some (Wrapped ''error executing the DomainTemplate'' (ExecError f))))) \<and>
   (HostnameFromTemplate (testConfig dashTemplate) ''test-name'' ''blue'' = (''blue-test-name'', None) \<and>
    exec (TagTemplate (testConfig dashTemplate))
      (tag_fields \<lparr>tag_Name = ''test-name'', tag_Tag = ''blue''\<rparr>) [] = (''blue-test-name'', None)) \<and>
   (DomainNameFromTemplate noDomains (testConfig dashTemplate) (testMeta False) ''test-name''
      = Returns (''test-name-default.example.com'', None) \<and>
    exec (DomainTemplate (testConfig dashTemplate))
      (domain_fields \<lparr>dom_Name = ''test-name'', dom_Namespace = Namespace (testMeta False),
          dom_Domain = LookupDomainForLabels (testConfig dashTemplate) (Labels (testMeta False)),
          dom_Annotations = Annotations (testMeta False), dom_Labels = Labels (testMeta False)\<rparr>) []
      = (''test-name-default.example.com'', None))"
proof -
  let ?bad = "(testConfig badVarNameTemplate)\<lparr>TagTemplate := badVarNameTemplate\<rparr>"
  have tag_undef:
    "references_undefined (TagTemplate ?bad) (tag_fields \<lparr>tag_Name = [], tag_Tag = []\<rparr>)"
    by (simp add: references_undefined_def badVarNameTemplate_def tag_fields_def testConfig_def)
  have dom_undef:
    "references_undefined (DomainTemplate ?bad)
       (domain_fields \<lparr>dom_Name = [], dom_Namespace = [], dom_Domain = [],
                       dom_Annotations = Map.empty, dom_Labels = Map.empty\<rparr>)"
    by (simp add: references_undefined_def badVarNameTemplate_def domain_fields_def testConfig_def)
  have unlabelled: "at_key (Labels (testMeta False)) VisibilityLabelKey = []"
    by (simp add: testMeta_def at_key_def VisibilityLabelKey_def)
  have host_ok:
    "HostnameFromTemplate (testConfig dashTemplate) ''test-name'' ''blue'' = (''blue-test-name'', None)"
    by (simp add: HostnameFromTemplate_def testConfig_def tag_fields_def)
  have dom_ok:
    "DomainNameFromTemplate noDomains (testConfig dashTemplate) (testMeta False) ''test-name''
       = Returns (''test-name-default.example.com'', None)"
    by (simp add: DomainNameFromTemplate_def testConfig_def testMeta_def dashTemplate_def
        noDomains_def at_key_def VisibilityLabelKey_def VisibilityClusterLocal_def
        Execute_def domain_fields_def)
  have bad_run:
    "(\<exists>f. HostnameFromTemplate ?bad ''test-name'' ''blue''
          = ([], Some (Wrapped ''error executing the TagTemplate'' (ExecError f)))) \<and>
     (\<exists>f. DomainNameFromTemplate noDomains ?bad (testMeta False) ''test-name''
          = Returns ([], Some (Wrapped ''error executing the DomainTemplate'' (ExecError f))))"
    using templating_error_never_partial
      [where tag = "''blue''" and cfg = ?bad and ?d1.0 = "\<lparr>tag_Name = [], tag_Tag = []\<rparr>"
         and r = "testMeta False" and name = "''test-name''" and b = noDomains
         and ?d2.0 = "\<lparr>dom_Name = [], dom_Namespace = [], dom_Domain = [],
            dom_Annotations = Map.empty, dom_Labels = Map.empty\<rparr>"]
      tag_undef dom_undef unlabelled
    by simp
  have good_run:
    "exec (TagTemplate (testConfig dashTemplate))
       (tag_fields \<lparr>tag_Name = ''test-name'', tag_Tag = ''blue''\<rparr>) [] = (''blue-test-name'', None) \<and>
     exec (DomainTemplate (testConfig dashTemplate))
      (domain_fields \<lparr>dom_Name = ''test-name'', dom_Namespace = Namespace (testMeta False),
          dom_Domain = LookupDomainForLabels (testConfig dashTemplate) (Labels (testMeta False)),
          dom_Annotations = Annotations (testMeta False), dom_Labels = Labels (testMeta False)\<rparr>) []
      = (''test-name-default.example.com'', None)"
    using templating_error_never_partial
      [where tag = "''blue''" and cfg = "testConfig dashTemplate" and r = "testMeta False"
         and name = "''test-name''" and b = noDomains and s = "''blue-test-name''"
         and s' = "''test-name-default.example.com''"]
      host_ok dom_ok
    by simp
  from tag_undef dom_undef unlabelled host_ok dom_ok bad_run good_run show ?thesis
    by (simp add: testConfig_def)
qed

text \<open>
  C9. With an empty tag \<open>HostnameFromTemplate\<close> returns the name and no error, whatever
  the configuration holds: the tag template plays no part in the result.
\<close>

theorem HostnameFromTemplate_empty_tag:
  "HostnameFromTemplate cfg name [] = (name, None)"
  by (simp add: HostnameFromTemplate_def)

text \<open>C9 at a configuration whose tag template could not be executed without an error.\<close>

theorem HostnameFromTemplate_empty_tag_witness:
  "HostnameFromTemplate ((testConfig dashTemplate)\<lparr>TagTemplate := badVarNameTemplate\<rparr>) ''test-name'' []
     = (''test-name'', None)"
  using HostnameFromTemplate_empty_tag
    [of "(testConfig dashTemplate)\<lparr>TagTemplate := badVarNameTemplate\<rparr>" "''test-name''"]
  by simp

end
